theory Spec2Isabelle
  imports Complex_Main
begin

section \<open>Python values, exceptions and the interpreter's services\<close>

text \<open>
  \<open>prom/__init__.py\<close> is dynamically typed: \<open>self.stats\<close> and \<open>self.graph\<close> hold
  \<open>None\<close> after construction and whatever \<open>pickle.load\<close> returned after \<open>load\<close>.
  The values the module builds and stores are \<open>None\<close>, integers, strings, lists, tuples
  and dictionaries; a dictionary is kept as the list of its items in iteration order.
\<close>

datatype pyvalue =
    PNone
  | PInt int
  | PStr string
  | PList "pyvalue list"
  | PTuple "pyvalue list"
  | PDict "(pyvalue \<times> pyvalue) list"

text \<open>
  The exception classes that occur. \<open>DocoptExit\<close> derives from \<open>SystemExit\<close>;
  \<open>SystemExit\<close> and \<open>KeyboardInterrupt\<close> derive from \<open>BaseException\<close> only, every other
  class here derives from \<open>Exception\<close>. \<open>SchemaError\<close> is the schema library's,
  \<open>UserError\<close> stands for any further subclass of \<open>Exception\<close> raised by code outside
  the module (an object's own \<open>__str__\<close>).
\<close>

datatype exn =
    AssertionError string
  | AttributeError
  | TypeError
  | ValueError
  | KeyError
  | FileNotFoundError
  | PermissionError
  | UnpicklingError
  | SchemaError
  | UserError string
  | DocoptExit
  | SystemExit
  | KeyboardInterrupt

fun is_Exception :: "exn \<Rightarrow> bool" where
  "is_Exception DocoptExit = False"
| "is_Exception SystemExit = False"
| "is_Exception KeyboardInterrupt = False"
| "is_Exception _ = True"

text \<open>One record of the module's \<open>LOGGER\<close>: \<open>debug\<close>, \<open>info\<close> and \<open>exception\<close>.\<close>

datatype log_record = LogDebug string | LogInfo string | LogException exn

text \<open>
  A live object as \<open>gather\<close> sees it: \<open>id(obj)\<close>, the outcome of \<open>str(obj)\<close> and of
  \<open>sys.getsizeof(obj)\<close> (both run the object's own methods and may raise), and the
  identities of \<open>gc.get_referents(obj)\<close> and \<open>gc.get_referrers(obj)\<close>.
\<close>

record heap_obj =
  obj_id :: int
  obj_str :: "exn + string"
  obj_sizeof :: "exn + int"
  obj_referents :: "int list"
  obj_referrers :: "int list"

text \<open>The dictionary built by \<open>get_process_info\<close>, keys \<open>ts\<close>, \<open>pid\<close>, \<open>name\<close>.\<close>

record process_info =
  info_ts :: rat
  info_pid :: int
  info_name :: string

text \<open>
  A value in the dictionary that \<open>docopt\<close> returns: the string of a positional argument
  (\<open>None\<close> when it is not given), or the boolean of an option or of a command.
\<close>

datatype optvalue = OptStr string | OptFlag bool | OptNone

text \<open>
  What the module takes from the interpreter and its libraries, none of it under the
  repository: whether the interpreter runs optimised (\<open>python -O\<close> or \<open>PYTHONOPTIMIZE\<close>),
  in which case \<open>assert\<close> statements are not executed; \<open>pickle.dump\<close> and \<open>pickle.load\<close>
  over file contents of type \<open>'b\<close>; \<open>gc.get_stats()\<close> (raising \<open>AttributeError\<close> where
  the function does not exist); \<open>gc.get_objects()\<close>; \<open>str\<close> on values other than
  strings; the \<open>%\<close> operator applied to a template and the process dictionary;
  \<open>time.time()\<close>, \<open>os.getpid()\<close>, \<open>sys.argv[0]\<close>; whether \<open>open(path, 'wb')\<close> succeeds
  and the \<open>OSError\<close> it raises when it does not; and \<open>docopt\<close> on the usage text of
  \<open>main\<close>, returning the dictionary of the parsed elements in its order of keys.
\<close>

record 'b runtime =
  optimize :: bool
  pickle_dump :: "pyvalue \<Rightarrow> 'b"
  pickle_load :: "'b \<Rightarrow> exn + pyvalue"
  gc_get_stats :: "exn + pyvalue"
  gc_get_objects :: "heap_obj list"
  builtin_str :: "pyvalue \<Rightarrow> string"
  str_mod :: "string \<Rightarrow> process_info \<Rightarrow> exn + string"
  time_time :: rat
  os_getpid :: int
  sys_argv0 :: string
  can_create :: "string \<Rightarrow> bool"
  open_error :: "string \<Rightarrow> exn"
  docopt :: "string list \<Rightarrow> exn + (string \<times> optvalue) list"

text \<open>The mutable world: the files by path, and the records logged so far.\<close>

record 'b world =
  files :: "string \<rightharpoonup> 'b"
  logger :: "log_record list"

definition pathexists :: "'b world \<Rightarrow> string \<Rightarrow> bool" where
  "pathexists w p = (files w p \<noteq> None)"

definition LOGGER_debug :: "string \<Rightarrow> 'b world \<Rightarrow> 'b world" where
  "LOGGER_debug m w = w\<lparr>logger := logger w @ [LogDebug m]\<rparr>"

definition LOGGER_info :: "string \<Rightarrow> 'b world \<Rightarrow> 'b world" where
  "LOGGER_info m w = w\<lparr>logger := logger w @ [LogInfo m]\<rparr>"

definition LOGGER_exception :: "exn \<Rightarrow> 'b world \<Rightarrow> 'b world" where
  "LOGGER_exception e w = w\<lparr>logger := logger w @ [LogException e]\<rparr>"

subsection \<open>Formatting and unpacking\<close>

definition tab :: char where
  "tab = CHR 0x09"

definition nl :: char where
  "nl = CHR 0x0A"

fun show_nat :: "nat \<Rightarrow> string" where
  "show_nat n =
     (if n < 10 then [''0123456789'' ! n]
      else show_nat (n div 10) @ [''0123456789'' ! (n mod 10)])"

declare show_nat.simps [simp del]

definition show_int :: "int \<Rightarrow> string" where
  "show_int i = (if i < 0 then ''-'' @ show_nat (nat (- i)) else show_nat (nat i))"

text \<open>\<open>'%i' % v\<close>: a number is required.\<close>

fun format_i :: "pyvalue \<Rightarrow> exn + string" where
  "format_i (PInt i) = Inr (show_int i)"
| "format_i _ = Inl TypeError"

text \<open>\<open>'%s' % v\<close>, that is \<open>str(v)\<close>: a string is its own rendering.\<close>

fun format_s :: "'b runtime \<Rightarrow> pyvalue \<Rightarrow> string" where
  "format_s rt (PStr s) = s"
| "format_s rt v = builtin_str rt v"

text \<open>
  Iteration: a list or tuple yields its elements, a dictionary its keys, a string its
  characters; \<open>None\<close> and integers are not iterable.
\<close>

fun py_iter :: "pyvalue \<Rightarrow> exn + pyvalue list" where
  "py_iter (PList xs) = Inr xs"
| "py_iter (PTuple xs) = Inr xs"
| "py_iter (PDict kvs) = Inr (map fst kvs)"
| "py_iter (PStr s) = Inr (map (\<lambda>c. PStr [c]) s)"
| "py_iter PNone = Inl TypeError"
| "py_iter (PInt i) = Inl TypeError"

text \<open>
  \<open>a, b = v\<close> and \<open>a, b, c = v\<close>: the right-hand side is unpacked before any target is
  assigned, and a wrong number of values raises \<open>ValueError\<close>.
\<close>

definition unpack :: "nat \<Rightarrow> pyvalue \<Rightarrow> exn + pyvalue list" where
  "unpack n v =
     (case py_iter v of
        Inl e \<Rightarrow> Inl e
      | Inr xs \<Rightarrow> if length xs = n then Inr xs else Inl ValueError)"

text \<open>\<open>d.items()\<close>: only a dictionary has the method.\<close>

fun dict_items :: "pyvalue \<Rightarrow> exn + (pyvalue \<times> pyvalue) list" where
  "dict_items (PDict kvs) = Inr kvs"
| "dict_items _ = Inl AttributeError"

text \<open>\<open>d[k] = v\<close>: an existing key keeps its place, a new key goes last.\<close>

fun dict_setitem :: "(pyvalue \<times> pyvalue) list \<Rightarrow> pyvalue \<Rightarrow> pyvalue \<Rightarrow> (pyvalue \<times> pyvalue) list" where
  "dict_setitem [] k v = [(k, v)]"
| "dict_setitem ((k', v') # kvs) k v =
     (if k' = k then (k, v) # kvs else (k', v') # dict_setitem kvs k v)"

text \<open>\<open>os.path.join\<close> of two components (POSIX).\<close>

definition pathjoin :: "string \<Rightarrow> string \<Rightarrow> string" where
  "pathjoin a b =
     (if b \<noteq> [] \<and> hd b = CHR ''/'' then b
      else if a = [] \<or> last a = CHR ''/'' then a @ b
      else a @ ''/'' @ b)"

section \<open>The module\<close>

definition get_process_info :: "'b runtime \<Rightarrow> process_info" where
  "get_process_info rt =
     \<lparr>info_ts = time_time rt, info_pid = os_getpid rt, info_name = sys_argv0 rt\<rparr>"

definition obj_dump :: "heap_obj \<Rightarrow> exn + string" where
  "obj_dump obj = obj_str obj"

subsection \<open>PromDumpFile\<close>

record PromDumpFile =
  path :: string
  stats :: pyvalue
  graph :: pyvalue

definition PromDumpFile_init :: "string \<Rightarrow> PromDumpFile" where
  "PromDumpFile_init p = \<lparr>path = p, stats = PNone, graph = PNone\<rparr>"

text \<open>
  Every method returns its outcome (\<open>Inl\<close> the exception that leaves it), the object and
  the world as they are at that moment, so that what a failed call has already done stays
  visible.
\<close>

definition load :: "'b runtime \<Rightarrow> PromDumpFile \<Rightarrow> 'b world \<Rightarrow> (exn + unit) \<times> PromDumpFile \<times> 'b world" where
  "load rt self w =
     (let w1 = LOGGER_debug (''Loading memory graph from: '' @ path self) w in
      case files w1 (path self) of
        None \<Rightarrow> (Inl FileNotFoundError, self, w1)
      | Some f \<Rightarrow>
          (case pickle_load rt f of
             Inl e \<Rightarrow> (Inl e, self, w1)
           | Inr v \<Rightarrow>
               (case unpack 2 v of
                  Inl e \<Rightarrow> (Inl e, self, w1)
                | Inr xs \<Rightarrow> (Inr (), self\<lparr>stats := xs ! 0, graph := xs ! 1\<rparr>, w1))))"

text \<open>
  The loop of \<open>gather\<close> over \<open>objs\<close>; \<open>g\<close> is the dictionary \<open>self.graph\<close>, filled in
  place, so it is returned also when an object's inspection raises.
\<close>

definition make_node :: "string \<Rightarrow> int \<Rightarrow> heap_obj \<Rightarrow> pyvalue" where
  "make_node s n obj =
     PTuple [PStr s, PInt n,
             PList (map PInt (obj_referents obj)),
             PList (map PInt (obj_referrers obj))]"

fun gather_loop :: "heap_obj list \<Rightarrow> (pyvalue \<times> pyvalue) list \<Rightarrow> (exn + unit) \<times> (pyvalue \<times> pyvalue) list" where
  "gather_loop [] g = (Inr (), g)"
| "gather_loop (obj # objs) g =
     (case obj_dump obj of
        Inl e \<Rightarrow> (Inl e, g)
      | Inr s \<Rightarrow>
          (case obj_sizeof obj of
             Inl e \<Rightarrow> (Inl e, g)
           | Inr n \<Rightarrow> gather_loop objs (dict_setitem g (PInt (obj_id obj)) (make_node s n obj))))"

definition gather :: "'b runtime \<Rightarrow> PromDumpFile \<Rightarrow> 'b world \<Rightarrow> (exn + unit) \<times> PromDumpFile \<times> 'b world" where
  "gather rt self w =
     (let w1 = LOGGER_debug ''Forcing GC colection'' w in
      case (case gc_get_stats rt of
              Inr s \<Rightarrow> Inr (self\<lparr>stats := s\<rparr>)
            | Inl e \<Rightarrow> (if e = AttributeError then Inr self else Inl e)) of
        Inl e \<Rightarrow> (Inl e, self, w1)
      | Inr self1 \<Rightarrow>
          (let w2 = LOGGER_debug ''Gathering memory graph'' w1;
               (r, g) = gather_loop (gc_get_objects rt) []
           in (r, self1\<lparr>graph := PDict g\<rparr>, w2)))"

text \<open>
  \<open>write\<close>. Its guard is an \<open>assert\<close> statement, executed only when the interpreter does
  not run optimised. \<open>open(path, 'wb')\<close> creates the file or truncates the one that is
  there, and \<open>pickle.dump\<close> then writes the pair.
\<close>

definition PromDumpFile_write :: "'b runtime \<Rightarrow> PromDumpFile \<Rightarrow> 'b world \<Rightarrow> (exn + unit) \<times> PromDumpFile \<times> 'b world" where
  "PromDumpFile_write rt self w =
     (if \<not> optimize rt \<and> pathexists w (path self)
      then (Inl (AssertionError (''cannot overwrite '' @ path self)), self, w)
      else
        (case (if graph self = PNone then gather rt self w else (Inr (), self, w)) of
           (Inl e, self1, w1) \<Rightarrow> (Inl e, self1, w1)
         | (Inr u, self1, w1) \<Rightarrow>
             (let w2 = LOGGER_debug (''Saving memory graph to: '' @ path self1) w1 in
              if can_create rt (path self1)
              then (Inr (), self1,
                    w2\<lparr>files := (files w2)(path self1 \<mapsto>
                                   pickle_dump rt (PTuple [stats self1, graph self1]))\<rparr>)
              else (Inl (open_error rt (path self1)), self1, w2))))"

text \<open>
  \<open>report\<close> writes to the stream \<open>f or sys.stdout\<close>; \<open>out\<close> is what that stream holds.
  Each \<open>f.write\<close> appends, so on an exception the stream keeps what was written before.
  Its guard too is an \<open>assert\<close> statement.
\<close>

fun report_stats :: "'b runtime \<Rightarrow> nat \<Rightarrow> pyvalue list \<Rightarrow> string \<Rightarrow> string" where
  "report_stats rt i [] out = out"
| "report_stats rt i (s # ss) out =
     report_stats rt (Suc i) ss (out @ show_int (int i) @ '': '' @ format_s rt s @ [nl])"

fun report_graph :: "'b runtime \<Rightarrow> nat \<Rightarrow> (pyvalue \<times> pyvalue) list \<Rightarrow> string \<Rightarrow> (exn + unit) \<times> string" where
  "report_graph rt i [] out = (Inr (), out)"
| "report_graph rt i ((ident, node) # rest) out =
     (let out1 = (if i mod 100 = 0 then out @ ''ID'' @ [tab] @ ''Object'' @ [nl] else out) in
      case unpack 3 node of
        Inl e \<Rightarrow> (Inl e, out1)
      | Inr xs \<Rightarrow>
          (case format_i ident of
             Inl e \<Rightarrow> (Inl e, out1)
           | Inr s \<Rightarrow>
               report_graph rt (Suc i) rest (out1 @ s @ [tab] @ format_s rt (xs ! 0) @ [nl])))"

definition report :: "'b runtime \<Rightarrow> PromDumpFile \<Rightarrow> string \<Rightarrow> (exn + unit) \<times> string" where
  "report rt self out =
     (if \<not> optimize rt \<and> graph self = PNone
      then (Inl (AssertionError ''no memory graph''), out)
      else
        (case (if stats self \<noteq> PNone
               then (let out1 = out @ ''Collection statitstics'' @ [nl] in
                     case py_iter (stats self) of
                       Inl e \<Rightarrow> (Inl e, out1)
                     | Inr ss \<Rightarrow> (Inr (), report_stats rt 0 ss out1 @ [nl]))
               else (Inr (), out)) of
           (Inl e, out2) \<Rightarrow> (Inl e, out2)
         | (Inr u, out2) \<Rightarrow>
             (let out3 = out2 @ ''Object graph'' @ [nl] in
              case dict_items (graph self) of
                Inl e \<Rightarrow> (Inl e, out3)
              | Inr kvs \<Rightarrow> report_graph rt 0 kvs out3)))"

subsection \<open>PromDump\<close>

record PromDump =
  dump_path :: string
  name_template :: string

definition dump :: "'b runtime \<Rightarrow> PromDump \<Rightarrow> 'b world \<Rightarrow> (exn + PromDumpFile) \<times> 'b world" where
  "dump rt self w =
     (let info = get_process_info rt in
      case str_mod rt (name_template self) info of
        Inl e \<Rightarrow> (Inl e, w)
      | Inr n \<Rightarrow>
          (let file_name = pathjoin (dump_path self) n;
               d = PromDumpFile_init file_name
           in case PromDumpFile_write rt d w of
                (Inl e, d1, w1) \<Rightarrow> (Inl e, w1)
              | (Inr u, d1, w1) \<Rightarrow> (Inr d1, w1)))"

text \<open>\<open>_handler\<close>: \<open>except Exception\<close> catches exactly the instances of \<open>Exception\<close>.\<close>

definition handler :: "'b runtime \<Rightarrow> PromDump \<Rightarrow> int \<Rightarrow> 'b world \<Rightarrow> (exn + unit) \<times> 'b world" where
  "handler rt self sig w =
     (let w1 = LOGGER_info (''Received signal: '' @ show_int sig @ '', dumping'') w in
      case dump rt self w1 of
        (Inl e, w2) \<Rightarrow>
          (if is_Exception e then (Inr (), LOGGER_exception e w2) else (Inl e, w2))
      | (Inr d, w2) \<Rightarrow> (Inr (), w2))"

subsection \<open>The command\<close>

text \<open>
  \<open>Schema({'<path>': pathexists}).validate(opt)\<close>. The schema library accepts a
  dictionary when each of its keys is a key of the schema, each key of the schema is
  present and each value passes the check given for its key; anything else raises
  \<open>SchemaError\<close>. So \<open>opt\<close> has to consist of the one key \<open><path>\<close>, with a path that
  exists.
\<close>

definition schema_validate :: "'b world \<Rightarrow> (string \<times> optvalue) list \<Rightarrow> exn + (string \<times> optvalue) list" where
  "schema_validate w opt =
     (case opt of
        [(k, OptStr p)] \<Rightarrow>
          (if k = ''<path>'' \<and> pathexists w p then Inr opt else Inl SchemaError)
      | _ \<Rightarrow> Inl SchemaError)"

text \<open>\<open>opt['<path>']\<close> on the validated dictionary.\<close>

fun opt_path :: "(string \<times> optvalue) list \<Rightarrow> exn + string" where
  "opt_path [(k, OptStr p)] = (if k = ''<path>'' then Inr p else Inl KeyError)"
| "opt_path _ = Inl KeyError"

text \<open>
  \<open>main\<close>: \<open>docopt\<close> parses \<open>argv\<close> against the usage line \<open>python -m prom <path>\<close>, the
  schema validates the dictionary and a \<open>SchemaError\<close> is re-raised as \<open>DocoptExit\<close>;
  then a \<open>PromDumpFile\<close> is constructed and \<open>report\<close> is called on it. \<open>stdout\<close> is the
  content of standard output.
\<close>

definition main :: "'b runtime \<Rightarrow> string list \<Rightarrow> 'b world \<Rightarrow> string \<Rightarrow> (exn + unit) \<times> string \<times> 'b world" where
  "main rt argv w stdout =
     (case docopt rt argv of
        Inl e \<Rightarrow> (Inl e, stdout, w)
      | Inr opt \<Rightarrow>
          (case schema_validate w opt of
             Inl e \<Rightarrow> (Inl DocoptExit, stdout, w)
           | Inr opt1 \<Rightarrow>
               (case opt_path opt1 of
                  Inl e \<Rightarrow> (Inl e, stdout, w)
                | Inr p \<Rightarrow>
                    (let d = PromDumpFile_init p;
                         (r, out) = report rt d stdout
                     in (r, out, w)))))"

text \<open>The process exits zero exactly when no exception leaves \<open>main\<close>.\<close>

definition exits_zero :: "(exn + unit) \<Rightarrow> bool" where
  "exits_zero r = (case r of Inr u \<Rightarrow> True | Inl e \<Rightarrow> False)"

section \<open>A concrete runtime and world\<close>

text \<open>
  Inputs on which the theorems below are evaluated: a heap of two objects on a runtime
  without \<open>gc.get_stats\<close>, a pickle that stores the value itself, a directory that holds
  one stored snapshot with an empty graph, and a snapshot as \<open>gather\<close> builds it.
\<close>

definition ex_heap :: "heap_obj list" where
  "ex_heap =
     [\<lparr>obj_id = 1, obj_str = Inr ''a'', obj_sizeof = Inr 10,
       obj_referents = [2], obj_referrers = []\<rparr>,
      \<lparr>obj_id = 2, obj_str = Inr ''b'', obj_sizeof = Inr 20,
       obj_referents = [], obj_referrers = [1, 7]\<rparr>]"

definition ex_rt :: "pyvalue runtime" where
  "ex_rt =
     \<lparr>optimize = False,
      pickle_dump = (\<lambda>v. v), pickle_load = Inr,
      gc_get_stats = Inl AttributeError, gc_get_objects = ex_heap,
      builtin_str = (\<lambda>v. ''{}''),
      str_mod = (\<lambda>t i. Inr (info_name i @ ''-'' @ show_int (info_pid i) @ ''-0.0.prom'')),
      time_time = 0, os_getpid = 42, sys_argv0 = ''app'',
      can_create = (\<lambda>p. True), open_error = (\<lambda>p. PermissionError),
      docopt = (\<lambda>argv. case argv of
                  [m, c, p] \<Rightarrow>
                    (if m = ''-m'' \<and> c = ''prom''
                     then Inr [(''-m'', OptFlag True), (''prom'', OptFlag True),
                               (''<path>'', OptStr p)]
                     else Inl DocoptExit)
                | _ \<Rightarrow> Inl DocoptExit)\<rparr>"

text \<open>The same runtime started with \<open>python -O\<close>.\<close>

definition ex_rt_optimized :: "pyvalue runtime" where
  "ex_rt_optimized = ex_rt\<lparr>optimize := True\<rparr>"

text \<open>The same runtime with one live object whose \<open>str\<close> is cut short by an interrupt.\<close>

definition ex_rt_interrupted :: "pyvalue runtime" where
  "ex_rt_interrupted =
     ex_rt\<lparr>gc_get_objects :=
       [\<lparr>obj_id = 1, obj_str = Inl KeyboardInterrupt, obj_sizeof = Inr 10,
         obj_referents = [], obj_referrers = []\<rparr>]\<rparr>"

definition ex_world :: "pyvalue world" where
  "ex_world = \<lparr>files = [''dump.prom'' \<mapsto> PTuple [PNone, PDict []]], logger = []\<rparr>"

text \<open>A world in which the name the trigger derives is already taken, by a file that is no snapshot.\<close>

definition ex_world_taken :: "pyvalue world" where
  "ex_world_taken = \<lparr>files = [''/tmp/app-42-0.0.prom'' \<mapsto> PNone], logger = []\<rparr>"

definition ex_snapshot :: PromDumpFile where
  "ex_snapshot =
     \<lparr>path = ''new.prom'',
      stats = PList [PDict [(PStr ''collections'', PInt 3)]],
      graph = PDict [(PInt 1, PTuple [PStr ''a'', PInt 10, PList [PInt 2], PList []])]\<rparr>"

definition ex_trigger :: PromDump where
  "ex_trigger = \<lparr>dump_path = ''/tmp'', name_template = ''%(name)s-%(pid)i-%(ts)s.prom''\<rparr>"

lemmas ex_defs = ex_heap_def ex_rt_def ex_rt_optimized_def ex_rt_interrupted_def ex_world_def
  ex_world_taken_def ex_snapshot_def ex_trigger_def

lemmas module_defs = PromDumpFile_init_def load_def gather_def PromDumpFile_write_def
  report_def dump_def handler_def main_def schema_validate_def pathexists_def
  LOGGER_debug_def LOGGER_info_def
  LOGGER_exception_def unpack_def obj_dump_def make_node_def pathjoin_def
  get_process_info_def show_int_def show_nat.simps

section \<open>What \<open>gather\<close> leaves alone\<close>

lemma gather_path: "gather rt self w = (r, self1, w1) \<Longrightarrow> path self1 = path self"
  by (auto simp: gather_def Let_def split: sum.splits prod.splits if_splits)

lemma gather_files: "gather rt self w = (r, self1, w1) \<Longrightarrow> files w1 = files w"
  by (auto simp: gather_def Let_def LOGGER_debug_def split: sum.splits prod.splits if_splits)

lemma gather_logger:
  "gather rt self w = (r, self1, w1) \<Longrightarrow>
     \<exists>more. logger w1 = logger w @ LogDebug ''Forcing GC colection'' # more"
  by (auto simp: gather_def Let_def LOGGER_debug_def split: sum.splits prod.splits if_splits)

section \<open>SnapshotStore: \<open>write\<close> and \<open>load\<close>\<close>

text \<open>
  C3 (round trip). Take any held snapshot: any value as stats, \<open>None\<close> included, and any
  graph. Writing it to a path that does not exist yet, where the file can be created,
  succeeds and leaves the object as it was; loading that path into a newly constructed
  object then succeeds and gives exactly the stats and the graph that were written, so
  the same identities and the same node contents. The one thing taken from the pickle
  library is that it reads back the pair it has just stored.
\<close>

theorem write_load_roundtrip:
  assumes fresh: "\<not> pathexists w (path self)"
    and creatable: "can_create rt (path self)"
    and held: "graph self \<noteq> PNone"
    and pickle: "pickle_load rt (pickle_dump rt (PTuple [stats self, graph self]))
                   = Inr (PTuple [stats self, graph self])"
  shows "\<exists>w1 w2 d.
           PromDumpFile_write rt self w = (Inr (), self, w1) \<and>
           load rt (PromDumpFile_init (path self)) w1 = (Inr (), d, w2) \<and>
           stats d = stats self \<and> graph d = graph self"
  using assms
  by (simp add: PromDumpFile_write_def load_def PromDumpFile_init_def LOGGER_debug_def
      unpack_def Let_def)

theorem write_load_roundtrip_witness:
  "\<not> pathexists ex_world (path ex_snapshot) \<and> can_create ex_rt (path ex_snapshot) \<and>
   graph ex_snapshot \<noteq> PNone \<and>
   (\<exists>w1 w2 d.
      PromDumpFile_write ex_rt ex_snapshot ex_world = (Inr (), ex_snapshot, w1) \<and>
      load ex_rt (PromDumpFile_init (path ex_snapshot)) w1 = (Inr (), d, w2) \<and>
      stats d = stats ex_snapshot \<and> graph d = graph ex_snapshot)"
  using write_load_roundtrip [where rt = ex_rt and self = ex_snapshot and w = ex_world]
  by (simp add: ex_defs pathexists_def)

text \<open>
  C4 (no overwrite), as the code has it. The guard of \<open>write\<close> is an \<open>assert\<close>. When the
  interpreter executes assertions and the path already holds a file, \<open>write\<close> fails on
  its first statement, the assertion \<open>cannot overwrite\<close> (the module's form of the
  AlreadyExists error), before it gathers, logs or opens anything: the object and the
  whole world, the file's contents among it, are what they were before the call.
\<close>

theorem write_existing_path_fails:
  assumes "\<not> optimize rt"
    and "files w (path self) = Some c"
  shows "PromDumpFile_write rt self w =
           (Inl (AssertionError (''cannot overwrite '' @ path self)), self, w)"
  using assms by (simp add: PromDumpFile_write_def pathexists_def)

theorem write_existing_path_fails_witness:
  "\<not> optimize ex_rt \<and>
   files ex_world (path (PromDumpFile_init ''dump.prom'')) = Some (PTuple [PNone, PDict []]) \<and>
   PromDumpFile_write ex_rt (PromDumpFile_init ''dump.prom'') ex_world =
     (Inl (AssertionError ''cannot overwrite dump.prom''),
      PromDumpFile_init ''dump.prom'', ex_world)"
  using write_existing_path_fails [where rt = ex_rt and self = "PromDumpFile_init ''dump.prom''"
      and w = ex_world and c = "PTuple [PNone, PDict []]"]
  by (simp add: ex_defs PromDumpFile_init_def)

text \<open>
  C4 as stated fails: under \<open>python -O\<close> the assertion is not executed, and \<open>write\<close> on
  the path of an existing dump succeeds and replaces the dump by the snapshot it holds.
\<close>

theorem write_overwrites_counterexample:
  "files ex_world ''dump.prom'' = Some (PTuple [PNone, PDict []]) \<and>
   fst (PromDumpFile_write ex_rt_optimized (ex_snapshot\<lparr>path := ''dump.prom''\<rparr>) ex_world)
     = Inr () \<and>
   files (snd (snd (PromDumpFile_write ex_rt_optimized (ex_snapshot\<lparr>path := ''dump.prom''\<rparr>)
                      ex_world))) ''dump.prom''
     = Some (PTuple [stats ex_snapshot, graph ex_snapshot])"
  by (simp add: ex_defs module_defs Let_def)

text \<open>
  The same for two calls in a row: with assertions executed, after a \<open>write\<close> that
  succeeded, a second \<open>write\<close> to that path, by this or any other object, fails with the
  assertion and changes nothing.
\<close>

lemma write_twice:
  assumes "\<not> optimize rt"
    and "PromDumpFile_write rt self w = (Inr (), self1, w1)"
    and "path other = path self"
  shows "PromDumpFile_write rt other w1 =
           (Inl (AssertionError (''cannot overwrite '' @ path self)), other, w1)"
proof -
  have p: "path self1 = path self"
    using assms(2) gather_path[of rt self w]
    by (auto simp: PromDumpFile_write_def Let_def split: if_splits prod.splits sum.splits)
  have "files w1 (path self) \<noteq> None"
    using assms(2) p
    by (auto simp: PromDumpFile_write_def Let_def LOGGER_debug_def
        split: if_splits prod.splits sum.splits)
  then show ?thesis using assms(1,3)
    by (auto simp: PromDumpFile_write_def pathexists_def)
qed



text \<open>
  C7 (capture on write). On a path that is free and can be created, \<open>write\<close> gathers
  exactly when no graph is held. With a graph held it leaves the object as it is, stores
  the pickle of the held pair (stats, graph), stats possibly \<open>None\<close>, and logs nothing
  but the saving. With no graph held it runs \<open>gather\<close> first: if that raises, so does
  \<open>write\<close>; otherwise the pair stored is the gathered one. \<open>gather\<close> is the only code that
  logs \<open>Forcing GC colection\<close>, and the records this call adds contain it if and only if
  the graph was absent.
\<close>

theorem write_gathers_iff_graph_absent:
  assumes fresh: "\<not> pathexists w (path self)"
    and creatable: "can_create rt (path self)"
  shows "(graph self \<noteq> PNone \<longrightarrow>
            PromDumpFile_write rt self w =
              (Inr (), self,
               \<lparr>files = (files w)(path self \<mapsto> pickle_dump rt (PTuple [stats self, graph self])),
                logger = logger w @ [LogDebug (''Saving memory graph to: '' @ path self)]\<rparr>)) \<and>
         (graph self = PNone \<longrightarrow>
            PromDumpFile_write rt self w =
              (case gather rt self w of
                 (Inl e, self1, w1) \<Rightarrow> (Inl e, self1, w1)
               | (Inr u, self1, w1) \<Rightarrow>
                   (Inr (), self1,
                    \<lparr>files = (files w1)(path self \<mapsto>
                               pickle_dump rt (PTuple [stats self1, graph self1])),
                     logger = logger w1 @
                               [LogDebug (''Saving memory graph to: '' @ path self)]\<rparr>))) \<and>
         (LogDebug ''Forcing GC colection''
            \<in> set (drop (length (logger w)) (logger (snd (snd (PromDumpFile_write rt self w)))))
          \<longleftrightarrow> graph self = PNone)"
proof (intro conjI impI)
  assume held: "graph self \<noteq> PNone"
  show "PromDumpFile_write rt self w =
              (Inr (), self,
               \<lparr>files = (files w)(path self \<mapsto> pickle_dump rt (PTuple [stats self, graph self])),
                logger = logger w @ [LogDebug (''Saving memory graph to: '' @ path self)]\<rparr>)"
    using fresh creatable held
    by (simp add: PromDumpFile_write_def LOGGER_debug_def)
next
  assume absent: "graph self = PNone"
  obtain r self1 w1 where g: "gather rt self w = (r, self1, w1)"
    by (cases "gather rt self w") auto
  have p: "path self1 = path self" using gather_path[OF g] .
  show "PromDumpFile_write rt self w =
              (case gather rt self w of
                 (Inl e, self1, w1) \<Rightarrow> (Inl e, self1, w1)
               | (Inr u, self1, w1) \<Rightarrow>
                   (Inr (), self1,
                    \<lparr>files = (files w1)(path self \<mapsto>
                               pickle_dump rt (PTuple [stats self1, graph self1])),
                     logger = logger w1 @
                               [LogDebug (''Saving memory graph to: '' @ path self)]\<rparr>))"
    using fresh creatable absent g p
    by (cases r) (simp_all add: PromDumpFile_write_def LOGGER_debug_def)
next
  show "(LogDebug ''Forcing GC colection''
            \<in> set (drop (length (logger w)) (logger (snd (snd (PromDumpFile_write rt self w))))))
          = (graph self = PNone)"
  proof (cases "graph self = PNone")
    case False
    then show ?thesis using fresh creatable
      by (simp add: PromDumpFile_write_def LOGGER_debug_def)
  next
    case True
    obtain r self1 w1 where g: "gather rt self w = (r, self1, w1)"
      by (cases "gather rt self w") auto
    obtain more where m: "logger w1 = logger w @ LogDebug ''Forcing GC colection'' # more"
      using gather_logger[OF g] by blast
    have p: "path self1 = path self" using gather_path[OF g] .
    show ?thesis using True fresh creatable g m p
      by (cases r) (simp_all add: PromDumpFile_write_def LOGGER_debug_def)
  qed
qed

theorem write_gathers_iff_graph_absent_witness:
  "\<not> pathexists ex_world (path ex_snapshot) \<and> can_create ex_rt (path ex_snapshot) \<and>
   graph ex_snapshot \<noteq> PNone \<and> graph (PromDumpFile_init ''new.prom'') = PNone \<and>
   PromDumpFile_write ex_rt ex_snapshot ex_world =
     (Inr (), ex_snapshot,
      \<lparr>files = (files ex_world)(''new.prom'' \<mapsto> PTuple [stats ex_snapshot, graph ex_snapshot]),
       logger = [LogDebug ''Saving memory graph to: new.prom'']\<rparr>) \<and>
   logger (snd (snd (PromDumpFile_write ex_rt (PromDumpFile_init ''new.prom'') ex_world))) =
     [LogDebug ''Forcing GC colection'', LogDebug ''Gathering memory graph'',
      LogDebug ''Saving memory graph to: new.prom'']"
  using write_gathers_iff_graph_absent [where rt = ex_rt and self = ex_snapshot and w = ex_world]
    write_gathers_iff_graph_absent [where rt = ex_rt and self = "PromDumpFile_init ''new.prom''"
      and w = ex_world]
  by (simp add: ex_defs module_defs Let_def)

section \<open>GraphCapture: \<open>gather\<close>\<close>


text \<open>An exception that leaves the loop is one that an object's inspection raised.\<close>

lemma gather_loop_raises:
  "fst (gather_loop objs g) = Inl e \<Longrightarrow>
     \<exists>obj \<in> set objs. obj_str obj = Inl e \<or> obj_sizeof obj = Inl e"
  by (induction objs arbitrary: g) (auto simp: obj_dump_def split: sum.splits)

lemma gather_raises:
  assumes "fst (gather rt self w) = Inl e"
  shows "gc_get_stats rt = Inl e \<or>
         (\<exists>obj \<in> set (gc_get_objects rt). obj_str obj = Inl e \<or> obj_sizeof obj = Inl e)"
proof (cases "gc_get_stats rt")
  case (Inl e')
  show ?thesis
  proof (cases "e' = AttributeError")
    case True
    with Inl assms have "fst (gather_loop (gc_get_objects rt) []) = Inl e"
      by (simp add: gather_def Let_def split: prod.splits)
    then show ?thesis using gather_loop_raises by blast
  next
    case False
    with Inl assms show ?thesis by (auto simp: gather_def Let_def)
  qed
next
  case (Inr s)
  with assms have "fst (gather_loop (gc_get_objects rt) []) = Inl e"
    by (simp add: gather_def Let_def split: prod.splits)
  then show ?thesis using gather_loop_raises by blast
qed




text \<open>
  So the snapshot that \<open>dump\<close> returns on such a runtime has its stats absent.
\<close>

lemma dump_stats_absent:
  assumes "gc_get_stats rt = Inl AttributeError"
    and "dump rt self w = (Inr d, w')"
  shows "stats d = PNone"
  using assms
  by (auto simp: dump_def PromDumpFile_write_def gather_def PromDumpFile_init_def Let_def
      split: sum.splits prod.splits if_splits)

section \<open>ReportRenderer: \<open>report\<close>\<close>

text \<open>
  C5 (incomplete snapshot), as the code has it. The guard of \<open>report\<close> is an \<open>assert\<close>.
  When the interpreter executes assertions, \<open>report\<close> on an object whose graph is
  \<open>None\<close>, neither gathered nor loaded, fails on its first statement, the assertion
  \<open>no memory graph\<close> (the module's form of the IncompleteSnapshot error), and the output
  stream holds what it held before.
\<close>

theorem report_without_graph:
  assumes "\<not> optimize rt"
    and "graph self = PNone"
  shows "report rt self out = (Inl (AssertionError ''no memory graph''), out)"
  using assms by (simp add: report_def)

theorem report_without_graph_witness:
  "\<not> optimize ex_rt \<and> graph (PromDumpFile_init ''dump.prom'') = PNone \<and>
   report ex_rt (PromDumpFile_init ''dump.prom'') ''abc'' =
     (Inl (AssertionError ''no memory graph''), ''abc'')"
  using report_without_graph [where rt = ex_rt and self = "PromDumpFile_init ''dump.prom''"
      and out = "''abc''"]
  by (simp add: ex_defs PromDumpFile_init_def)

text \<open>
  C5 as stated fails: under \<open>python -O\<close> the assertion is not executed, and \<open>report\<close> on
  a newly constructed object writes the title of the graph section and then raises
  \<open>AttributeError\<close>, since \<open>None\<close> has no \<open>items\<close>.
\<close>

theorem report_without_graph_counterexample:
  "graph (PromDumpFile_init ''dump.prom'') = PNone \<and>
   report ex_rt_optimized (PromDumpFile_init ''dump.prom'') [] =
     (Inl AttributeError, ''Object graph'' @ [nl])"
  by (simp add: ex_defs module_defs Let_def)

subsection \<open>The statistics section\<close>

text \<open>
  The statistics loop writes one line per record, numbered from the start index, in
  order. With stats held as a list, \<open>report\<close> writes the header, these lines and an empty
  line, and then goes on exactly as it does with stats absent.
\<close>

lemma report_stats_lines:
  "report_stats rt i ss out =
     out @ concat (map (\<lambda>(j, s). show_int (int j) @ '': '' @ format_s rt s @ [nl])
                       (enumerate i ss))"
  by (induction ss arbitrary: i out) simp_all

lemma report_with_stats:
  assumes "graph self \<noteq> PNone" and "stats self = PList ss"
  shows "report rt self out =
           report rt (self\<lparr>stats := PNone\<rparr>)
             (out @ ''Collection statitstics'' @ [nl] @
              concat (map (\<lambda>(j, s). show_int (int j) @ '': '' @ format_s rt s @ [nl])
                          (enumerate 0 ss)) @ [nl])"
  using assms by (simp add: report_def report_stats_lines)

lemma report_without_stats:
  assumes "graph self = PDict kvs" and "stats self = PNone"
  shows "report rt self out = report_graph rt 0 kvs (out @ ''Object graph'' @ [nl])"
  using assms by (simp add: report_def)

subsection \<open>The graph section\<close>

text \<open>
  The row loop unpacks each node into three names. On nodes of three fields under integer
  keys it writes the table: the header before every row whose index is a multiple of 100,
  and one line of identity and first field per node, in the order of the items.
\<close>

lemma report_graph_three_fields:
  assumes "\<forall>(k, v) \<in> set kvs. (\<exists>n. k = PInt n) \<and> (\<exists>a b c. v = PTuple [a, b, c])"
  shows "report_graph rt i kvs out =
           (Inr (),
            out @ concat (map (\<lambda>(j, k, v).
                    (if j mod 100 = 0 then ''ID'' @ [tab] @ ''Object'' @ [nl] else []) @
                    (case k of PInt n \<Rightarrow> show_int n | _ \<Rightarrow> []) @ [tab] @
                    format_s rt (case v of PTuple xs \<Rightarrow> hd xs | _ \<Rightarrow> PNone) @ [nl])
                  (enumerate i kvs)))"
  using assms
proof (induction kvs arbitrary: i out)
  case Nil
  then show ?case by simp
next
  case (Cons kv kvs)
  obtain k v where kv: "kv = (k, v)" by (cases kv)
  from Cons.prems kv obtain n a b c where shape: "k = PInt n" "v = PTuple [a, b, c]"
    by auto
  have rest: "\<forall>(k, v) \<in> set kvs. (\<exists>n. k = PInt n) \<and> (\<exists>a b c. v = PTuple [a, b, c])"
    using Cons.prems by simp
  show ?case
    unfolding kv shape
    by (simp add: Cons.IH[OF rest] unpack_def)
qed

text \<open>
  The nodes that \<open>gather\<close> builds have four fields, so the unpacking of the first row
  raises \<open>ValueError\<close>, after the section title and the table header were written.
\<close>

lemma report_graph_four_fields:
  "report_graph rt i ((k, PTuple [a, b, c, d]) # rest) out =
     (Inl ValueError, if i mod 100 = 0 then out @ ''ID'' @ [tab] @ ''Object'' @ [nl] else out)"
  by (simp add: unpack_def)

lemma dict_setitem_hd:
  assumes "g = [] \<or> (\<exists>k' a b c d rest. g = (k', PTuple [a, b, c, d]) # rest)"
  shows "\<exists>k' a b c d rest.
           dict_setitem g k (make_node s n obj) = (k', PTuple [a, b, c, d]) # rest"
  using assms by (cases g) (auto simp: make_node_def)

lemma gather_loop_hd:
  assumes "gather_loop objs g = (Inr (), g')"
    and "(g = [] \<and> objs \<noteq> []) \<or> (\<exists>k a b c d rest. g = (k, PTuple [a, b, c, d]) # rest)"
  shows "\<exists>k a b c d rest. g' = (k, PTuple [a, b, c, d]) # rest"
  using assms
proof (induction objs arbitrary: g)
  case Nil
  then show ?case by simp
next
  case (Cons obj objs)
  from Cons.prems(1) obtain s n where
    rest: "gather_loop objs (dict_setitem g (PInt (obj_id obj)) (make_node s n obj)) = (Inr (), g')"
    by (auto split: sum.splits)
  have "g = [] \<or> (\<exists>k' a b c d rest. g = (k', PTuple [a, b, c, d]) # rest)"
    using Cons.prems(2) by auto
  from dict_setitem_hd[OF this]
  have "\<exists>k' a b c d r'.
    dict_setitem g (PInt (obj_id obj)) (make_node s n obj) = (k', PTuple [a, b, c, d]) # r'" .
  then show ?case using Cons.IH[OF rest] by blast
qed

text \<open>So \<open>report\<close> raises on every snapshot that \<open>gather\<close> built from a heap with a live object.\<close>

lemma report_gathered_graph_raises:
  assumes run: "gather rt self w = (Inr (), self1, w1)"
    and live: "gc_get_objects rt \<noteq> []"
    and st: "stats self1 = PNone"
  shows "report rt self1 out =
           (Inl ValueError, out @ ''Object graph'' @ [nl] @ ''ID'' @ [tab] @ ''Object'' @ [nl])"
proof -
  from run obtain g where g: "gather_loop (gc_get_objects rt) [] = (Inr (), g)"
    and s1: "graph self1 = PDict g"
    by (auto simp: gather_def Let_def split: sum.splits prod.splits if_splits)
  from gather_loop_hd[OF g] live obtain k a b c d rest where
    "g = (k, PTuple [a, b, c, d]) # rest" by blast
  then show ?thesis
    by (simp add: report_without_stats[OF s1 st] unpack_def Let_def)
qed

text \<open>
  C2 (graph section), where the code departs from it. A snapshot gathered from the heap
  of two objects holds the two nodes under the identities 1 and 2; \<open>report\<close> on it writes
  the section title and the table header and then raises \<open>ValueError\<close>: no line with an
  identity and a description is written.
\<close>

theorem report_after_gather_raises:
  "(case gather ex_rt (PromDumpFile_init ''new.prom'') ex_world of
      (r, d, w) \<Rightarrow> (r, graph d, report ex_rt d [])) =
   (Inr (),
    PDict [(PInt 1, PTuple [PStr ''a'', PInt 10, PList [PInt 2], PList []]),
           (PInt 2, PTuple [PStr ''b'', PInt 20, PList [], PList [PInt 1, PInt 7]])],
    Inl ValueError, ''Object graph'' @ [nl] @ ''ID'' @ [tab] @ ''Object'' @ [nl])"
  by (simp add: ex_defs module_defs Let_def)

text \<open>
  C6 (statistics are optional), where the code departs from it. On a populated snapshot
  of one node, with stats absent \<open>report\<close> writes no statistics section, and with stats
  present it writes the header, the line of the one record and the empty line first; in
  both cases the graph section that follows stops after its table header with
  \<open>ValueError\<close>, so the graph section is not rendered.
\<close>

theorem report_graph_section_raises:
  "report ex_rt (ex_snapshot\<lparr>stats := PNone\<rparr>) [] =
     (Inl ValueError, ''Object graph'' @ [nl] @ ''ID'' @ [tab] @ ''Object'' @ [nl]) \<and>
   report ex_rt ex_snapshot [] =
     (Inl ValueError,
      ''Collection statitstics'' @ [nl] @ ''0: {}'' @ [nl] @ [nl] @
      ''Object graph'' @ [nl] @ ''ID'' @ [tab] @ ''Object'' @ [nl])"
  by (simp add: ex_defs module_defs Let_def)

section \<open>SignalTrigger: \<open>dump\<close> and \<open>_handler\<close>\<close>

text \<open>Where an exception that leaves \<open>write\<close> or \<open>dump\<close> comes from.\<close>

lemma write_raises:
  assumes "fst (PromDumpFile_write rt self w) = Inl e"
  shows "(\<exists>m. e = AssertionError m) \<or> (\<exists>p. e = open_error rt p) \<or>
         gc_get_stats rt = Inl e \<or>
         (\<exists>obj \<in> set (gc_get_objects rt). obj_str obj = Inl e \<or> obj_sizeof obj = Inl e)"
proof (cases "\<not> optimize rt \<and> pathexists w (path self)")
  case True
  with assms show ?thesis by (auto simp: PromDumpFile_write_def)
next
  case False
  show ?thesis
  proof (cases "graph self = PNone")
    case held: False
    with False assms show ?thesis
      by (auto simp: PromDumpFile_write_def Let_def split: if_splits)
  next
    case True
    obtain r self1 w1 where g: "gather rt self w = (r, self1, w1)"
      by (cases "gather rt self w") auto
    show ?thesis
    proof (cases r)
      case (Inl e')
      with g True False assms have "e' = e" by (auto simp: PromDumpFile_write_def)
      with Inl g have "fst (gather rt self w) = Inl e" by simp
      then show ?thesis using gather_raises by blast
    next
      case (Inr u)
      with g True False assms show ?thesis
        by (auto simp: PromDumpFile_write_def Let_def split: if_splits)
    qed
  qed
qed

lemma dump_raises:
  assumes "fst (dump rt self w) = Inl e"
  shows "(\<exists>m. e = AssertionError m) \<or> (\<exists>p. e = open_error rt p) \<or>
         gc_get_stats rt = Inl e \<or>
         str_mod rt (name_template self) (get_process_info rt) = Inl e \<or>
         (\<exists>obj \<in> set (gc_get_objects rt). obj_str obj = Inl e \<or> obj_sizeof obj = Inl e)"
proof (cases "str_mod rt (name_template self) (get_process_info rt)")
  case (Inl e')
  with assms show ?thesis by (auto simp: dump_def Let_def)
next
  case (Inr n)
  let ?d = "PromDumpFile_init (pathjoin (dump_path self) n)"
  from Inr assms have "fst (PromDumpFile_write rt ?d w) = Inl e"
    by (auto simp: dump_def Let_def split: prod.splits sum.splits)
  then show ?thesis using write_raises by blast
qed

text \<open>
  C8 (the handler swallows failures), as the code has it. An exception raised during the
  gather-then-write sequence that is an instance of \<open>Exception\<close> is caught by the handler
  and logged, and the handler returns normally: the world is the one the failed dump
  left, with the exception's record added to the log. An exception that derives from
  \<open>BaseException\<close> only (\<open>KeyboardInterrupt\<close>, \<open>SystemExit\<close>) passes through the handler,
  unlogged.
\<close>

theorem handler_catches_Exception:
  assumes "dump rt self (LOGGER_info (''Received signal: '' @ show_int sig @ '', dumping'') w)
             = (Inl e, w')"
  shows "handler rt self sig w =
           (if is_Exception e then (Inr (), w'\<lparr>logger := logger w' @ [LogException e]\<rparr>)
            else (Inl e, w'))"
  using assms by (simp add: handler_def LOGGER_exception_def)

theorem handler_catches_Exception_witness:
  "is_Exception (AssertionError ''cannot overwrite /tmp/app-42-0.0.prom'') \<and>
   handler ex_rt ex_trigger 10 ex_world_taken =
     (Inr (),
      \<lparr>files = files ex_world_taken,
       logger = [LogInfo ''Received signal: 10, dumping'',
                 LogException (AssertionError ''cannot overwrite /tmp/app-42-0.0.prom'')]\<rparr>) \<and>
   \<not> is_Exception KeyboardInterrupt \<and>
   handler ex_rt_interrupted ex_trigger 10 ex_world =
     (Inl KeyboardInterrupt,
      \<lparr>files = files ex_world,
       logger = [LogInfo ''Received signal: 10, dumping'',
                 LogDebug ''Forcing GC colection'', LogDebug ''Gathering memory graph'']\<rparr>)"
  using handler_catches_Exception [where rt = ex_rt and self = ex_trigger and sig = 10
      and w = ex_world_taken and e = "AssertionError ''cannot overwrite /tmp/app-42-0.0.prom''"
      and w' = "\<lparr>files = files ex_world_taken,
                 logger = [LogInfo ''Received signal: 10, dumping'']\<rparr>"]
    handler_catches_Exception [where rt = ex_rt_interrupted and self = ex_trigger and sig = 10
      and w = ex_world and e = KeyboardInterrupt
      and w' = "\<lparr>files = files ex_world,
                 logger = [LogInfo ''Received signal: 10, dumping'',
                           LogDebug ''Forcing GC colection'',
                           LogDebug ''Gathering memory graph'']\<rparr>"]
  by (simp add: ex_defs module_defs Let_def)

text \<open>
  C8 as stated fails: \<open>except Exception\<close> lets pass what derives from \<open>BaseException\<close>
  only. With a live object whose \<open>str\<close> ends in \<open>KeyboardInterrupt\<close>, the exception leaves
  the handler.
\<close>

theorem handler_propagates_counterexample:
  "fst (handler ex_rt_interrupted ex_trigger 10 ex_world) = Inl KeyboardInterrupt"
  by (simp add: ex_defs module_defs Let_def)

text \<open>
  Nothing else leaves it: whatever the handler lets out is no instance of \<open>Exception\<close>,
  and when the interpreter's services raise instances of \<open>Exception\<close> only, the handler
  always returns normally.
\<close>

lemma handler_propagates_only_non_Exception:
  "fst (handler rt self sig w) = Inl e \<Longrightarrow> \<not> is_Exception e"
  by (auto simp: handler_def Let_def split: prod.splits sum.splits if_splits)

lemma handler_returns:
  assumes "\<forall>e. gc_get_stats rt = Inl e \<longrightarrow> is_Exception e"
    and "\<forall>e. str_mod rt (name_template self) (get_process_info rt) = Inl e \<longrightarrow> is_Exception e"
    and "\<forall>p. is_Exception (open_error rt p)"
    and "\<forall>obj \<in> set (gc_get_objects rt). \<forall>e.
           obj_str obj = Inl e \<or> obj_sizeof obj = Inl e \<longrightarrow> is_Exception e"
  shows "fst (handler rt self sig w) = Inr ()"
proof -
  let ?w1 = "LOGGER_info (''Received signal: '' @ show_int sig @ '', dumping'') w"
  obtain r w2 where d: "dump rt self ?w1 = (r, w2)" by (cases "dump rt self ?w1") auto
  show ?thesis
  proof (cases r)
    case (Inl e)
    with d have "fst (dump rt self ?w1) = Inl e" by simp
    from dump_raises[OF this] assms have "is_Exception e" by auto
    with Inl d show ?thesis by (simp add: handler_def)
  next
    case (Inr x)
    with d show ?thesis by (simp add: handler_def)
  qed
qed

section \<open>The report command\<close>

text \<open>
  What \<open>main\<close> does with the dictionary of \<open>docopt\<close>. A dictionary with any key besides
  \<open><path>\<close> is rejected by the schema, and so is a path that does not exist: both end
  in \<open>DocoptExit\<close> with standard output and the files untouched. Were the dictionary the
  single key \<open><path>\<close> with an existing path, \<open>main\<close> would construct the object and
  call \<open>report\<close> on it without ever calling \<open>load\<close>.
\<close>

lemma schema_validate_keys:
  "schema_validate w opt = Inr opt1 \<Longrightarrow> map fst opt = [''<path>'']"
  by (auto simp: schema_validate_def split: list.splits prod.splits optvalue.splits if_splits)

lemma main_wrong_keys:
  assumes "docopt rt argv = Inr opt" and "map fst opt \<noteq> [''<path>'']"
  shows "main rt argv w out = (Inl DocoptExit, out, w)"
proof (cases "schema_validate w opt")
  case (Inl e)
  with assms(1) show ?thesis by (simp add: main_def)
next
  case (Inr opt1)
  with assms(2) schema_validate_keys show ?thesis by blast
qed

lemma main_missing_path:
  "docopt rt argv = Inr [(''<path>'', OptStr p)] \<Longrightarrow> \<not> pathexists w p \<Longrightarrow>
     main rt argv w out = (Inl DocoptExit, out, w)"
  by (simp add: main_def schema_validate_def)

lemma main_existing_path:
  "docopt rt argv = Inr [(''<path>'', OptStr p)] \<Longrightarrow> pathexists w p \<Longrightarrow> \<not> optimize rt \<Longrightarrow>
     main rt argv w out = (Inl (AssertionError ''no memory graph''), out, w)"
  by (simp add: main_def schema_validate_def PromDumpFile_init_def report_def)

text \<open>
  For the usage line \<open>python -m prom <path>\<close> the dictionary of \<open>docopt\<close> carries the
  keys \<open>-m\<close> and \<open>prom\<close> besides \<open><path>\<close>. On the path of an existing, validly stored
  dump (loading it and reporting gives the title of the graph section) the command ends
  in \<open>DocoptExit\<close>, the usage error, and writes nothing.
\<close>

lemma main_existing_dump_usage_error:
  "main ex_rt [''-m'', ''prom'', ''dump.prom''] ex_world [] = (Inl DocoptExit, [], ex_world) \<and>
   (case load ex_rt (PromDumpFile_init ''dump.prom'') ex_world of
      (r, d, w) \<Rightarrow> (r, report ex_rt d [])) = (Inr (), Inr (), ''Object graph'' @ [nl])"
  by (simp add: ex_defs module_defs Let_def)

text \<open>
  C1 (the command), where the code departs from it. Whatever the arguments, the files
  and the interpreter's mode, and whatever \<open>docopt\<close> returns for them, \<open>main\<close> does not
  exit zero, and it leaves the files as they are: the report of a stored snapshot is
  never written. (On a path that does not exist this is the usage error the specification
  asks for; on the path of a validly stored snapshot it asks for the report and exit
  status zero.)
\<close>

theorem main_never_exits_zero:
  "\<not> exits_zero (fst (main rt argv w out)) \<and> snd (snd (main rt argv w out)) = w"
proof (cases "docopt rt argv")
  case (Inl e)
  then show ?thesis by (simp add: main_def exits_zero_def)
next
  case opt: (Inr opt)
  show ?thesis
  proof (cases "schema_validate w opt")
    case (Inl e)
    with opt show ?thesis by (simp add: main_def exits_zero_def)
  next
    case val: (Inr opt1)
    show ?thesis
    proof (cases "opt_path opt1")
      case (Inl e)
      with opt val show ?thesis by (simp add: main_def exits_zero_def)
    next
      case (Inr p)
      have "\<exists>e out1. report rt (PromDumpFile_init p) out = (Inl e, out1)"
        by (simp add: report_def PromDumpFile_init_def)
      then obtain e out1 where "report rt (PromDumpFile_init p) out = (Inl e, out1)"
        by blast
      with opt val Inr show ?thesis by (simp add: main_def exits_zero_def)
    qed
  qed
qed

end
